theory Spec2Isabelle
  imports Main "HOL-Library.Word"
begin

unbundle bit_operations_syntax

section \<open>The UART transmit ring buffer\<close>

text \<open>
  The lighting driver \<^verbatim>\<open>anne_pro_lighting.c\<close> pushes every command through
  \<^verbatim>\<open>uart_tx_ringbuf_write\<close>, \<^verbatim>\<open>uart_tx_ringbuf_start_transmission\<close>,
  \<^verbatim>\<open>uart_tx_ringbuf_finish_transmission\<close> and \<^verbatim>\<open>uart_tx_ringbuf_empty\<close>.
  The driver instantiates the queue at lines 25-33 with the fields
  \<^verbatim>\<open>buf\<close>, \<^verbatim>\<open>uart\<close>, \<^verbatim>\<open>size\<close>, \<^verbatim>\<open>sending_elements\<close>, \<^verbatim>\<open>head\<close> and \<^verbatim>\<open>tail\<close>.
\<close>

type_synonym u8 = "8 word"

text \<open>
  Modelled from the spec: the UART peripheral behind \<^verbatim>\<open>LED_UART\<close> (a ChibiOS
  \<^verbatim>\<open>UARTDriver\<close>, not part of the sources at hand). \<open>tx_armed\<close> is the length of
  the transmit operation the hardware is armed with (\<open>None\<close> when idle), and
  \<open>tx_sink\<close> collects the bytes the hardware has put on the wire.
\<close>

record uart_driver =
  tx_armed :: "nat option"
  tx_sink :: "u8 list"

text \<open>
  Modelled from the spec: the type \<^verbatim>\<open>uart_tx_ringbuf_t\<close> of
  \<^verbatim>\<open>uart_tx_ringbuf.h\<close>. The field names are those of the initialiser at
  lines 26-33; \<open>size_rb\<close> is the field \<^verbatim>\<open>size\<close>, and \<open>sending_elements\<close> is the
  counter the spec calls \<open>pending_writes\<close>. Following the spec, \<open>tail\<close> advances
  on enqueue and \<open>head\<close> advances on completed transmission.

  The spec tests emptiness by \<open>head == tail\<close>, lets the occupancy reach the
  capacity ("never exceeds capacity") and, in its second scenario, fills a queue of
  capacity 8 with 8 bytes and expects all of them on the wire. A full queue is
  therefore told from an empty one by the indices alone: \<open>head\<close> and \<open>tail\<close>
  count the bytes transmitted and the bytes enqueued, and are taken modulo the
  capacity where they address the buffer (the spec's "advancing tail by len(data)
  modulo capacity", with a capacity that is "power-of-two sized for cheap
  wraparound"). The counters are natural numbers; the wrap of a C \<^verbatim>\<open>size_t\<close> after
  4 GiB of traffic is not modelled.
\<close>

record uart_tx_ringbuf =
  buf :: "u8 list"
  uart :: uart_driver
  size_rb :: nat
  sending_elements :: int
  head :: nat
  tail :: nat

text \<open>
  Copying bytes into the ring, one at a time, wrapping at the capacity \<open>n\<close>.
  (An index outside the buffer would leave the HOL list unchanged; with a start
  below \<open>n\<close> and a buffer of length \<open>n\<close> this never happens.)
\<close>

fun put_bytes :: "nat \<Rightarrow> nat \<Rightarrow> u8 list \<Rightarrow> u8 list \<Rightarrow> u8 list" where
  "put_bytes n p [] b = b"
| "put_bytes n p (x # xs) b = put_bytes n ((p + 1) mod n) xs (b[p := x])"

text \<open>
  Modelled from the spec: \<^verbatim>\<open>uart_tx_ringbuf_write\<close> of \<^verbatim>\<open>uart_tx_ringbuf.c\<close>.
  "Appends data to the tail of the ring buffer, advancing tail by len(data) modulo
  capacity; increments pending_writes by one." The bytes go to the positions
  \<open>tail\<close>, \<open>tail + 1\<close>, ... taken modulo the capacity, and \<open>tail\<close> counts on by
  the length of the data. There is no overflow check.
\<close>

definition uart_tx_ringbuf_write :: "uart_tx_ringbuf \<Rightarrow> u8 list \<Rightarrow> uart_tx_ringbuf" where
  "uart_tx_ringbuf_write rb data =
     rb\<lparr>buf := put_bytes (size_rb rb) (tail rb mod size_rb rb) data (buf rb),
        tail := tail rb + length data,
        sending_elements := sending_elements rb + 1\<rparr>"

text \<open>
  Modelled from the spec: \<^verbatim>\<open>uart_tx_ringbuf_empty\<close> of \<^verbatim>\<open>uart_tx_ringbuf.c\<close>:
  "read-only query: head == tail".
\<close>

definition uart_tx_ringbuf_empty :: "uart_tx_ringbuf \<Rightarrow> bool" where
  "uart_tx_ringbuf_empty rb = (head rb = tail rb)"

text \<open>
  The contiguous run of buffered bytes that starts at the position of \<open>head\<close>:
  all buffered bytes, or those up to the end of the buffer when the queued bytes
  wrap around.
\<close>

definition run_length :: "uart_tx_ringbuf \<Rightarrow> nat" where
  "run_length rb = min (tail rb - head rb) (size_rb rb - head rb mod size_rb rb)"

text \<open>
  Modelled from the spec: \<^verbatim>\<open>uart_tx_ringbuf_start_transmission\<close> of
  \<^verbatim>\<open>uart_tx_ringbuf.c\<close>. "If the hardware is idle and the buffer is non-empty,
  begins a transmit operation covering the currently buffered, contiguous run of
  bytes from head to tail (or to buffer end if wraparound). If hardware is already
  transmitting, this call is a no-op."
\<close>

definition uart_tx_ringbuf_start_transmission :: "uart_tx_ringbuf \<Rightarrow> uart_tx_ringbuf" where
  "uart_tx_ringbuf_start_transmission rb =
     (if tx_armed (uart rb) = None \<and> \<not> uart_tx_ringbuf_empty rb
      then rb\<lparr>uart := (uart rb)\<lparr>tx_armed := Some (run_length rb)\<rparr>\<rparr>
      else rb)"

text \<open>
  Modelled from the spec: \<^verbatim>\<open>uart_tx_ringbuf_finish_transmission\<close> of
  \<^verbatim>\<open>uart_tx_ringbuf.c\<close>, run by the transmit-complete interrupt. The hardware has
  sent the armed run (the bytes reach the sink), and the handler "advances head
  past the bytes just sent, decrements pending_writes by one" and, "if more
  buffered bytes remain, immediately re-arms the next contiguous transmission;
  otherwise leaves hardware idle".
\<close>

definition uart_tx_ringbuf_finish_transmission :: "uart_tx_ringbuf \<Rightarrow> uart_tx_ringbuf" where
  "uart_tx_ringbuf_finish_transmission rb =
     (let n = (case tx_armed (uart rb) of None \<Rightarrow> 0 | Some k \<Rightarrow> k);
          sent = take n (drop (head rb mod size_rb rb) (buf rb))
      in uart_tx_ringbuf_start_transmission
           (rb\<lparr>uart := \<lparr>tx_armed = None, tx_sink = tx_sink (uart rb) @ sent\<rparr>,
               head := head rb + n,
               sending_elements := sending_elements rb - 1\<rparr>))"

subsection \<open>What the queue holds\<close>





subsection \<open>Runs of queue operations\<close>

datatype rb_op = Write "u8 list" | Start | Finish

fun rb_step :: "rb_op \<Rightarrow> uart_tx_ringbuf \<Rightarrow> uart_tx_ringbuf" where
  "rb_step (Write d) rb = uart_tx_ringbuf_write rb d"
| "rb_step Start rb = uart_tx_ringbuf_start_transmission rb"
| "rb_step Finish rb = uart_tx_ringbuf_finish_transmission rb"

fun rb_run :: "rb_op list \<Rightarrow> uart_tx_ringbuf \<Rightarrow> uart_tx_ringbuf" where
  "rb_run [] rb = rb"
| "rb_run (x # xs) rb = rb_run xs (rb_step x rb)"










text \<open>
  The queue of the lighting driver as lines 25-33 initialise it: a zeroed buffer of
  256 bytes, both indices and the counter at 0, the UART idle.
\<close>

text \<open>An empty, idle queue of capacity \<open>n\<close> over a zeroed buffer.\<close>

definition empty_ringbuf :: "nat \<Rightarrow> uart_tx_ringbuf" where
  "empty_ringbuf n =
     \<lparr>buf = replicate n 0, uart = \<lparr>tx_armed = None, tx_sink = []\<rparr>,
      size_rb = n, sending_elements = 0, head = 0, tail = 0\<rparr>"

definition led_uart_tx_buffer :: "u8 list" where
  "led_uart_tx_buffer = replicate 256 0"

definition led_uart_ringbuf_initial :: uart_tx_ringbuf where
  "led_uart_ringbuf_initial =
     \<lparr>buf = led_uart_tx_buffer, uart = \<lparr>tx_armed = None, tx_sink = []\<rparr>,
      size_rb = 256, sending_elements = 0, head = 0, tail = 0\<rparr>"

section \<open>The lighting controller\<close>

text \<open>
  The driver talks to the outside through calls: GPIO writes, the thread sleep, the
  UART set-up, the transmit queue and the user hook. The model keeps the sequence of
  these calls in the state (\<open>calls\<close>), next to the variables of the C file, so that
  what an operation emits can be read off afterwards.
\<close>

datatype call =
    Call_writePinLow
  | Call_writePinHigh
  | Call_setPinOutput
  | Call_uartStart
  | Call_palSetPadMode nat
  | Call_chThdSleepMilliseconds nat
  | Call_ringbuf_write "u8 list"
  | Call_ringbuf_start_transmission
  | Call_led_set_user u8

text \<open>
  The key event types of the keyboard framework, with the fields the driver and
  \<^verbatim>\<open>IS_NOEVENT\<close> read.
\<close>

record keypos =
  col :: u8
  row :: u8

record keyevent =
  key :: keypos
  pressed :: bool
  time :: "16 word"

record keyrecord =
  event :: keyevent

text \<open>
  Macros and constants the file takes from headers that are not at hand; they are
  parameters of the model.
\<close>

record platform =
  MATRIX_COLS :: nat
  IS_NOEVENT :: "keyevent \<Rightarrow> bool"
  IS_LED_ON :: "u8 \<Rightarrow> nat \<Rightarrow> bool"
  USB_LED_CAPS_LOCK :: nat
  APL_MODE_OFF :: u8

text \<open>The static variables of the file, the level of pin C15 and the calls made so far.\<close>

record lighting =
  led_uart_ringbuf :: uart_tx_ringbuf
  leds_awake :: bool
  backlight_active :: bool
  capslock_active :: bool
  keystate :: "u8 list"
  pin_C15 :: bool
  calls :: "call list"

definition lighting_initial :: lighting where
  "lighting_initial =
     \<lparr>led_uart_ringbuf = led_uart_ringbuf_initial,
      leds_awake = False, backlight_active = False, capslock_active = False,
      keystate = [9, 10, 7, 0, 0, 0, 0, 0, 0, 0, 0, 0],
      pin_C15 = False, calls = []\<rparr>"

subsection \<open>The calls\<close>

definition writePinLow :: "lighting \<Rightarrow> lighting" where
  "writePinLow s = s\<lparr>pin_C15 := False, calls := calls s @ [Call_writePinLow]\<rparr>"

definition writePinHigh :: "lighting \<Rightarrow> lighting" where
  "writePinHigh s = s\<lparr>pin_C15 := True, calls := calls s @ [Call_writePinHigh]\<rparr>"

definition external :: "call \<Rightarrow> lighting \<Rightarrow> lighting" where
  "external c s = s\<lparr>calls := calls s @ [c]\<rparr>"

text \<open>
  \<^verbatim>\<open>uart_tx_ringbuf_write(&led_uart_ringbuf, count, data)\<close>: the first \<open>count\<close>
  bytes of \<open>data\<close> go into the queue.
\<close>

definition ringbuf_write :: "nat \<Rightarrow> u8 list \<Rightarrow> lighting \<Rightarrow> lighting" where
  "ringbuf_write count data s =
     s\<lparr>led_uart_ringbuf := uart_tx_ringbuf_write (led_uart_ringbuf s) (take count data),
       calls := calls s @ [Call_ringbuf_write (take count data)]\<rparr>"

definition ringbuf_start_transmission :: "lighting \<Rightarrow> lighting" where
  "ringbuf_start_transmission s =
     s\<lparr>led_uart_ringbuf := uart_tx_ringbuf_start_transmission (led_uart_ringbuf s),
       calls := calls s @ [Call_ringbuf_start_transmission]\<rparr>"

subsection \<open>The operations\<close>

text \<open>Lines 36-38: the transmit-complete callback of the LED UART.\<close>

definition led_uart_txend :: "lighting \<Rightarrow> lighting" where
  "led_uart_txend s =
     s\<lparr>led_uart_ringbuf := uart_tx_ringbuf_finish_transmission (led_uart_ringbuf s)\<rparr>"

text \<open>Lines 58-67.\<close>

definition anne_pro_lighting_init :: "lighting \<Rightarrow> lighting" where
  "anne_pro_lighting_init s =
     external (Call_palSetPadMode 11) (external (Call_palSetPadMode 10)
       (external Call_uartStart (external Call_setPinOutput (writePinLow s))))"

text \<open>Lines 146-152.\<close>

definition anne_pro_lighting_on :: "lighting \<Rightarrow> lighting" where
  "anne_pro_lighting_on s =
     (if leds_awake s then s
      else (external (Call_chThdSleepMilliseconds 50) (writePinHigh s))\<lparr>leds_awake := True\<rparr>)"

text \<open>Lines 155-159.\<close>

definition anne_pro_lighting_off :: "lighting \<Rightarrow> lighting" where
  "anne_pro_lighting_off s = (writePinLow s)\<lparr>leds_awake := False\<rparr>"

text \<open>
  Lines 70-90. The string literals carry their terminating NUL; the count of 4 leaves
  it out.
\<close>

definition led_set_kb :: "platform \<Rightarrow> u8 \<Rightarrow> lighting \<Rightarrow> lighting" where
  "led_set_kb P usb_led s =
     external (Call_led_set_user usb_led)
       (if IS_LED_ON P usb_led (USB_LED_CAPS_LOCK P)
        then ringbuf_start_transmission
               (ringbuf_write 4 [0x09, 0x02, 0x0c, 0x01, 0]
                  (anne_pro_lighting_on (s\<lparr>capslock_active := True\<rparr>)))
        else (ringbuf_start_transmission
                (ringbuf_write 4 [0x09, 0x02, 0x0c, 0x00, 0] s))\<lparr>capslock_active := False\<rparr>)"

text \<open>
  Lines 96-119. \<open>position\<close> is a C \<^verbatim>\<open>int\<close>; with \<open>row\<close> and \<open>col\<close> below 256 and
  a column count of a real matrix it does not overflow, so it is a natural number
  here. \<open>keystate\<close> has 12 elements: an index of 12 or more is a write outside the
  array, which is undefined in C and \<open>None\<close> here.
\<close>

definition anne_pro_lighting_update_dynamic :: "platform \<Rightarrow> keyrecord \<Rightarrow> lighting \<Rightarrow> lighting option" where
  "anne_pro_lighting_update_dynamic P record s =
     (if IS_NOEVENT P (event record) then Some s
      else if backlight_active s then
        (let position = unat (row (key (event record))) * MATRIX_COLS P
                          + unat (col (key (event record)));
             index = position div 8;
             bit = position mod 8
         in if 3 + index < length (keystate s) then
              (let ks = (if pressed (event record)
                         then (keystate s)[3 + index := (keystate s ! (3 + index)) OR push_bit bit 1]
                         else (keystate s)[3 + index := (keystate s ! (3 + index)) AND NOT (push_bit bit 1)])
               in Some (ringbuf_start_transmission (ringbuf_write 12 ks (s\<lparr>keystate := ks\<rparr>))))
            else None)
      else Some s)"

text \<open>Lines 122-133.\<close>

definition anne_pro_lighting_update :: "lighting \<Rightarrow> lighting" where
  "anne_pro_lighting_update s =
     (let s1 = (if \<not> uart_tx_ringbuf_empty (led_uart_ringbuf s)
                then ringbuf_start_transmission s else s);
          user_active = (backlight_active s1 \<or> capslock_active s1)
      in if leds_awake s1 \<and> \<not> user_active then anne_pro_lighting_off s1 else s1)"

text \<open>Lines 162-164.\<close>

definition anne_pro_lighting_enabled :: "lighting \<Rightarrow> bool" where
  "anne_pro_lighting_enabled s = backlight_active s"

text \<open>Lines 167-185.\<close>

definition anne_pro_lighting_rate_next :: "lighting \<Rightarrow> lighting" where
  "anne_pro_lighting_rate_next s =
     (if backlight_active s
      then ringbuf_write 6 [0x09, 0x04, 0x05, 0x00, 0x01, 0x00, 0] s else s)"

definition anne_pro_lighting_brightness_next :: "lighting \<Rightarrow> lighting" where
  "anne_pro_lighting_brightness_next s =
     (if backlight_active s
      then ringbuf_write 6 [0x09, 0x04, 0x05, 0x00, 0x00, 0x01, 0] s else s)"

definition anne_pro_lighting_mode_next :: "lighting \<Rightarrow> lighting" where
  "anne_pro_lighting_mode_next s =
     (if backlight_active s
      then ringbuf_write 6 [0x09, 0x04, 0x05, 0x01, 0x00, 0x00, 0] s else s)"

text \<open>Lines 188-195.\<close>

definition anne_pro_lighting_mode :: "u8 \<Rightarrow> lighting \<Rightarrow> lighting" where
  "anne_pro_lighting_mode mode s =
     (if leds_awake s
      then (ringbuf_start_transmission
              (ringbuf_write 4 [9, 2, 1, mode] s))\<lparr>backlight_active := (mode \<noteq> 0)\<rparr>
      else s)"

text \<open>Lines 198-204.\<close>

definition anne_pro_lighting_mode_last :: "lighting \<Rightarrow> lighting" where
  "anne_pro_lighting_mode_last s =
     (if leds_awake s
      then (ringbuf_start_transmission
              (ringbuf_write 3 [0x09, 0x01, 0x01, 0] s))\<lparr>backlight_active := True\<rparr>
      else s)"

text \<open>Lines 136-143.\<close>

definition anne_pro_lighting_toggle :: "platform \<Rightarrow> lighting \<Rightarrow> lighting" where
  "anne_pro_lighting_toggle P s =
     (if \<not> backlight_active s
      then anne_pro_lighting_mode_last (anne_pro_lighting_on s)
      else anne_pro_lighting_mode (APL_MODE_OFF P) s)"

text \<open>Lines 207-215.\<close>

definition anne_pro_lighting_rate_brightness :: "u8 \<Rightarrow> u8 \<Rightarrow> lighting \<Rightarrow> lighting" where
  "anne_pro_lighting_rate_brightness rate brightness s =
     (if backlight_active s
      then (let brightness = (if brightness > 10 then 10 else brightness)
            in ringbuf_start_transmission
                 (ringbuf_write 6 [9, 4, 2, rate, brightness, 0] s))
      else s)"

text \<open>
  Lines 219-226. The second element of \<open>buf\<close> is \<^verbatim>\<open>3 + 5 * keys\<close> stored into a
  \<^verbatim>\<open>uint8_t\<close>, so it is taken modulo 256, as the arithmetic of \<open>u8\<close> does. The
  count of the second write, \<^verbatim>\<open>5 * keys\<close>, is an \<^verbatim>\<open>int\<close> and is not truncated.
  \<open>payload\<close> is a pointer in C; reading \<^verbatim>\<open>5 * keys\<close> bytes from a shorter array is
  undefined, and \<open>None\<close> here.
\<close>

definition anne_pro_lighting_set_keys :: "u8 \<Rightarrow> u8 list \<Rightarrow> lighting \<Rightarrow> lighting option" where
  "anne_pro_lighting_set_keys keys payload s =
     (if leds_awake s then
        (if 5 * unat keys \<le> length payload then
           Some ((ringbuf_write (5 * unat keys) payload
                    (ringbuf_write 5 [9, 3 + 5 * keys, 11, 202, keys] s))\<lparr>backlight_active := True\<rparr>)
         else None)
      else Some s)"

subsection \<open>The exposed operations as one step function\<close>

datatype operation =
    Op_init
  | Op_led_set_kb u8
  | Op_update_dynamic keyrecord
  | Op_update
  | Op_toggle
  | Op_on
  | Op_off
  | Op_rate_next
  | Op_brightness_next
  | Op_mode_next
  | Op_mode u8
  | Op_mode_last
  | Op_rate_brightness u8 u8
  | Op_set_keys u8 "u8 list"

fun exec :: "platform \<Rightarrow> operation \<Rightarrow> lighting \<Rightarrow> lighting option" where
  "exec P Op_init s = Some (anne_pro_lighting_init s)"
| "exec P (Op_led_set_kb u) s = Some (led_set_kb P u s)"
| "exec P (Op_update_dynamic r) s = anne_pro_lighting_update_dynamic P r s"
| "exec P Op_update s = Some (anne_pro_lighting_update s)"
| "exec P Op_toggle s = Some (anne_pro_lighting_toggle P s)"
| "exec P Op_on s = Some (anne_pro_lighting_on s)"
| "exec P Op_off s = Some (anne_pro_lighting_off s)"
| "exec P Op_rate_next s = Some (anne_pro_lighting_rate_next s)"
| "exec P Op_brightness_next s = Some (anne_pro_lighting_brightness_next s)"
| "exec P Op_mode_next s = Some (anne_pro_lighting_mode_next s)"
| "exec P (Op_mode m) s = Some (anne_pro_lighting_mode m s)"
| "exec P Op_mode_last s = Some (anne_pro_lighting_mode_last s)"
| "exec P (Op_rate_brightness r b) s = Some (anne_pro_lighting_rate_brightness r b s)"
| "exec P (Op_set_keys n payload) s = anne_pro_lighting_set_keys n payload s"

text \<open>The calls an operation added when it took \<open>s\<close> to \<open>s'\<close>.\<close>

definition emitted :: "lighting \<Rightarrow> lighting \<Rightarrow> call list" where
  "emitted s s' = drop (length (calls s)) (calls s')"

text \<open>All bytes a sequence of calls put into the queue, in order.\<close>

fun enqueued :: "call list \<Rightarrow> u8 list" where
  "enqueued [] = []"
| "enqueued (Call_ringbuf_write d # cs) = d @ enqueued cs"
| "enqueued (_ # cs) = enqueued cs"



text \<open>Every write into the queue is followed by a request to transmit.\<close>

fun kicked :: "call list \<Rightarrow> bool" where
  "kicked [] = True"
| "kicked (Call_ringbuf_write d # cs) = (Call_ringbuf_start_transmission \<in> set cs \<and> kicked cs)"
| "kicked (_ # cs) = kicked cs"

text \<open>The operations that write into the queue and leave the kick to the next update tick.\<close>

fun deferred :: "operation \<Rightarrow> bool" where
  "deferred Op_rate_next = True"
| "deferred Op_brightness_next = True"
| "deferred Op_mode_next = True"
| "deferred (Op_set_keys n payload) = True"
| "deferred _ = False"



text \<open>Bit \<open>p\<close> of the bitmap that follows the three header bytes of the keystate packet.\<close>

definition keystate_bit :: "u8 list \<Rightarrow> nat \<Rightarrow> bool" where
  "keystate_bit ks p = bit (ks ! (3 + p div 8)) (p mod 8)"

text \<open>
  The keystate packet in the words of the spec's wire format table:
  \<^verbatim>\<open>09 0a 07 00\<close>, then the 9 bytes of the bitmap.
\<close>

definition keystate_packet_spec :: "u8 list \<Rightarrow> u8 list" where
  "keystate_packet_spec ks = [0x09, 0x0a, 0x07, 0x00] @ take 9 (drop 3 ks)"

text \<open>
  The rate and brightness command in the words of the spec's wire format table:
  \<^verbatim>\<open>09 04 02\<close>, the rate, the brightness clamped to 10.
\<close>

definition rate_brightness_packet_spec :: "u8 \<Rightarrow> u8 \<Rightarrow> u8 list" where
  "rate_brightness_packet_spec rate brightness = [0x09, 0x04, 0x02, rate, min brightness 10]"

text \<open>
  An instance of the platform parameters for the closed examples: 14 matrix columns,
  an event without a time stamp or at position (255, 255) is no event, the caps lock
  bit is bit 1 of the USB LED byte, and mode 0 is off.
\<close>

definition example_platform :: platform where
  "example_platform =
     \<lparr>MATRIX_COLS = 14,
      IS_NOEVENT = (\<lambda>e. time e = 0 \<or> (row (key e) = 255 \<and> col (key e) = 255)),
      IS_LED_ON = (\<lambda>leds name. bit leds name),
      USB_LED_CAPS_LOCK = 1,
      APL_MODE_OFF = 0\<rparr>"

text \<open>The state after waking the controller and selecting mode 5: awake, backlight active.\<close>

definition lit_state :: lighting where
  "lit_state = anne_pro_lighting_mode 5 (anne_pro_lighting_on lighting_initial)"

text \<open>The same after a direct \<^verbatim>\<open>anne_pro_lighting_off\<close>: asleep, backlight still marked active.\<close>

definition cut_state :: lighting where
  "cut_state = anne_pro_lighting_off lit_state"


text \<open>Two key presses for the closed examples: row 1, column 3, and row 0, column 0.\<close>

definition example_press :: keyrecord where
  "example_press = \<lparr>event = \<lparr>key = \<lparr>col = 3, row = 1\<rparr>, pressed = True, time = 100\<rparr>\<rparr>"

definition first_key_press :: keyrecord where
  "first_key_press = \<lparr>event = \<lparr>key = \<lparr>col = 0, row = 0\<rparr>, pressed = True, time = 100\<rparr>\<rparr>"

section \<open>Properties of the transmit queue\<close>
















































text \<open>
  The scenarios of the spec, run on the model. In the first, one write, a kick and a
  completion leave the queue empty with the counter at 0. In the second, the two
  writes fill the queue and go out as one contiguous run of 8 bytes; a second
  completion finds nothing armed and changes no byte. In the third, a write that
  straddles the end of the buffer goes out as a run of 2 and a run of 3 bytes.
\<close>

lemma scenario_1:
  "uart_tx_ringbuf_empty (rb_run [Write [1, 2, 3, 4], Start, Finish] (empty_ringbuf 8)) \<and>
   sending_elements (rb_run [Write [1, 2, 3, 4], Start, Finish] (empty_ringbuf 8)) = 0 \<and>
   tx_sink (uart (rb_run [Write [1, 2, 3, 4], Start, Finish] (empty_ringbuf 8))) = [1, 2, 3, 4]"
  by code_simp

lemma scenario_2:
  "tx_sink (uart (rb_run [Write [1, 2, 3, 4], Write [5, 6, 7, 8], Start, Finish, Finish]
     (empty_ringbuf 8))) = [1, 2, 3, 4, 5, 6, 7, 8] \<and>
   uart_tx_ringbuf_empty (rb_run [Write [1, 2, 3, 4], Write [5, 6, 7, 8], Start, Finish, Finish]
     (empty_ringbuf 8)) \<and>
   sending_elements (rb_run [Write [1, 2, 3, 4], Write [5, 6, 7, 8], Start, Finish, Finish]
     (empty_ringbuf 8)) = 0"
  by code_simp

lemma scenario_wraparound:
  "tx_sink (uart (rb_run [Write [1, 2, 3, 4, 5, 6], Start, Finish, Write [7, 8, 9, 10, 11], Start]
     (empty_ringbuf 8))) = [1, 2, 3, 4, 5, 6] \<and>
   tx_armed (uart (rb_run [Write [1, 2, 3, 4, 5, 6], Start, Finish, Write [7, 8, 9, 10, 11], Start]
     (empty_ringbuf 8))) = Some 2 \<and>
   tx_armed (uart (rb_run
     [Write [1, 2, 3, 4, 5, 6], Start, Finish, Write [7, 8, 9, 10, 11], Start, Finish]
     (empty_ringbuf 8))) = Some 3 \<and>
   tx_sink (uart (rb_run
     [Write [1, 2, 3, 4, 5, 6], Start, Finish, Write [7, 8, 9, 10, 11], Start, Finish, Finish]
     (empty_ringbuf 8))) = [1, 2, 3, 4, 5, 6, 7, 8, 9, 10, 11]"
  by code_simp

section \<open>Properties of the lighting controller\<close>

subsection \<open>The calls of each operation\<close>

lemmas call_defs = writePinLow_def writePinHigh_def external_def ringbuf_write_def
  ringbuf_start_transmission_def

lemma emitted_append: "calls s' = calls s @ xs \<Longrightarrow> emitted s s' = xs"
  by (simp add: emitted_def)

lemma emitted_same [simp]: "emitted s s = []"
  by (simp add: emitted_def)

lemma calls_on:
  "calls (anne_pro_lighting_on s) =
     calls s @ (if leds_awake s then [] else [Call_writePinHigh, Call_chThdSleepMilliseconds 50])"
  by (simp add: anne_pro_lighting_on_def call_defs)

lemma flags_on:
  "leds_awake (anne_pro_lighting_on s)"
  "backlight_active (anne_pro_lighting_on s) = backlight_active s"
  "capslock_active (anne_pro_lighting_on s) = capslock_active s"
  by (simp_all add: anne_pro_lighting_on_def call_defs)

lemma calls_off: "calls (anne_pro_lighting_off s) = calls s @ [Call_writePinLow]"
  by (simp add: anne_pro_lighting_off_def call_defs)

lemma calls_init:
  "calls (anne_pro_lighting_init s) =
     calls s @ [Call_writePinLow, Call_setPinOutput, Call_uartStart,
                Call_palSetPadMode 10, Call_palSetPadMode 11]"
  by (simp add: anne_pro_lighting_init_def call_defs)

lemma calls_mode:
  "calls (anne_pro_lighting_mode m s) =
     calls s @ (if leds_awake s
                then [Call_ringbuf_write [9, 2, 1, m], Call_ringbuf_start_transmission] else [])"
  by (simp add: anne_pro_lighting_mode_def call_defs)

lemma calls_mode_last:
  "calls (anne_pro_lighting_mode_last s) =
     calls s @ (if leds_awake s
                then [Call_ringbuf_write [9, 1, 1], Call_ringbuf_start_transmission] else [])"
  by (simp add: anne_pro_lighting_mode_last_def call_defs)

lemma calls_rate_next:
  "calls (anne_pro_lighting_rate_next s) =
     calls s @ (if backlight_active s then [Call_ringbuf_write [9, 4, 5, 0, 1, 0]] else [])"
  by (simp add: anne_pro_lighting_rate_next_def call_defs)

lemma calls_brightness_next:
  "calls (anne_pro_lighting_brightness_next s) =
     calls s @ (if backlight_active s then [Call_ringbuf_write [9, 4, 5, 0, 0, 1]] else [])"
  by (simp add: anne_pro_lighting_brightness_next_def call_defs)

lemma calls_mode_next:
  "calls (anne_pro_lighting_mode_next s) =
     calls s @ (if backlight_active s then [Call_ringbuf_write [9, 4, 5, 1, 0, 0]] else [])"
  by (simp add: anne_pro_lighting_mode_next_def call_defs)

lemma calls_rate_brightness:
  "calls (anne_pro_lighting_rate_brightness r b s) =
     calls s @ (if backlight_active s
                then [Call_ringbuf_write [9, 4, 2, r, min b 10, 0], Call_ringbuf_start_transmission]
                else [])"
  by (auto simp: anne_pro_lighting_rate_brightness_def call_defs min_def)

lemma calls_toggle:
  "calls (anne_pro_lighting_toggle P s) =
     calls s @ (if \<not> backlight_active s
                then (if leds_awake s then [] else [Call_writePinHigh, Call_chThdSleepMilliseconds 50])
                     @ [Call_ringbuf_write [9, 1, 1], Call_ringbuf_start_transmission]
                else if leds_awake s
                then [Call_ringbuf_write [9, 2, 1, APL_MODE_OFF P], Call_ringbuf_start_transmission]
                else [])"
  by (simp add: anne_pro_lighting_toggle_def calls_mode calls_mode_last calls_on flags_on)

lemma calls_update:
  "calls (anne_pro_lighting_update s) =
     calls s @ (if uart_tx_ringbuf_empty (led_uart_ringbuf s) then []
                else [Call_ringbuf_start_transmission])
             @ (if leds_awake s \<and> \<not> backlight_active s \<and> \<not> capslock_active s
                then [Call_writePinLow] else [])"
  by (simp add: anne_pro_lighting_update_def anne_pro_lighting_off_def call_defs Let_def)

lemma calls_led_set_kb:
  "calls (led_set_kb P u s) =
     calls s @ (if IS_LED_ON P u (USB_LED_CAPS_LOCK P)
                then (if leds_awake s then [] else [Call_writePinHigh, Call_chThdSleepMilliseconds 50])
                     @ [Call_ringbuf_write [9, 2, 12, 1], Call_ringbuf_start_transmission]
                else [Call_ringbuf_write [9, 2, 12, 0], Call_ringbuf_start_transmission])
             @ [Call_led_set_user u]"
  by (simp add: led_set_kb_def anne_pro_lighting_on_def call_defs)

lemma calls_set_keys:
  "anne_pro_lighting_set_keys n payload s = Some s' \<Longrightarrow>
   calls s' = calls s @ (if leds_awake s
      then [Call_ringbuf_write [9, 3 + 5 * n, 11, 202, n],
            Call_ringbuf_write (take (5 * unat n) payload)]
      else [])"
  by (auto simp: anne_pro_lighting_set_keys_def call_defs split: if_splits)

lemma calls_update_dynamic:
  "anne_pro_lighting_update_dynamic P r s = Some s' \<Longrightarrow>
   calls s' = calls s @ (if \<not> IS_NOEVENT P (event r) \<and> backlight_active s
      then [Call_ringbuf_write (take 12 (keystate s')), Call_ringbuf_start_transmission]
      else [])"
  by (auto simp: anne_pro_lighting_update_dynamic_def call_defs Let_def split: if_splits)

lemma exec_calls:
  assumes "exec P op s = Some s'"
  shows "calls s' = calls s @
    (case op of
       Op_init \<Rightarrow> [Call_writePinLow, Call_setPinOutput, Call_uartStart,
                    Call_palSetPadMode 10, Call_palSetPadMode 11]
     | Op_led_set_kb u \<Rightarrow>
         (if IS_LED_ON P u (USB_LED_CAPS_LOCK P)
          then (if leds_awake s then [] else [Call_writePinHigh, Call_chThdSleepMilliseconds 50])
               @ [Call_ringbuf_write [9, 2, 12, 1], Call_ringbuf_start_transmission]
          else [Call_ringbuf_write [9, 2, 12, 0], Call_ringbuf_start_transmission])
         @ [Call_led_set_user u]
     | Op_update_dynamic r \<Rightarrow>
         (if \<not> IS_NOEVENT P (event r) \<and> backlight_active s
          then [Call_ringbuf_write (take 12 (keystate s')), Call_ringbuf_start_transmission]
          else [])
     | Op_update \<Rightarrow>
         (if uart_tx_ringbuf_empty (led_uart_ringbuf s) then []
          else [Call_ringbuf_start_transmission])
         @ (if leds_awake s \<and> \<not> backlight_active s \<and> \<not> capslock_active s
            then [Call_writePinLow] else [])
     | Op_toggle \<Rightarrow>
         (if \<not> backlight_active s
          then (if leds_awake s then [] else [Call_writePinHigh, Call_chThdSleepMilliseconds 50])
               @ [Call_ringbuf_write [9, 1, 1], Call_ringbuf_start_transmission]
          else if leds_awake s
          then [Call_ringbuf_write [9, 2, 1, APL_MODE_OFF P], Call_ringbuf_start_transmission]
          else [])
     | Op_on \<Rightarrow> (if leds_awake s then [] else [Call_writePinHigh, Call_chThdSleepMilliseconds 50])
     | Op_off \<Rightarrow> [Call_writePinLow]
     | Op_rate_next \<Rightarrow>
         (if backlight_active s then [Call_ringbuf_write [9, 4, 5, 0, 1, 0]] else [])
     | Op_brightness_next \<Rightarrow>
         (if backlight_active s then [Call_ringbuf_write [9, 4, 5, 0, 0, 1]] else [])
     | Op_mode_next \<Rightarrow>
         (if backlight_active s then [Call_ringbuf_write [9, 4, 5, 1, 0, 0]] else [])
     | Op_mode m \<Rightarrow>
         (if leds_awake s
          then [Call_ringbuf_write [9, 2, 1, m], Call_ringbuf_start_transmission] else [])
     | Op_mode_last \<Rightarrow>
         (if leds_awake s
          then [Call_ringbuf_write [9, 1, 1], Call_ringbuf_start_transmission] else [])
     | Op_rate_brightness r b \<Rightarrow>
         (if backlight_active s
          then [Call_ringbuf_write [9, 4, 2, r, min b 10, 0], Call_ringbuf_start_transmission]
          else [])
     | Op_set_keys n payload \<Rightarrow>
         (if leds_awake s
          then [Call_ringbuf_write [9, 3 + 5 * n, 11, 202, n],
                Call_ringbuf_write (take (5 * unat n) payload)]
          else []))"
proof (cases op)
  case (Op_update_dynamic r)
  then show ?thesis
    using assms calls_update_dynamic [of P r s s'] by simp
next
  case (Op_set_keys n payload)
  then show ?thesis
    using assms calls_set_keys [of n payload s s'] by simp
qed (use assms in \<open>auto simp: calls_init calls_led_set_kb calls_update calls_toggle
      calls_on calls_off calls_rate_next calls_brightness_next calls_mode_next calls_mode
      calls_mode_last calls_rate_brightness\<close>)

subsection \<open>The states of the examples\<close>

lemma initial_flags:
  "\<not> leds_awake lighting_initial" "\<not> backlight_active lighting_initial"
  "\<not> capslock_active lighting_initial" "calls lighting_initial = []"
  "keystate lighting_initial = [9, 10, 7, 0, 0, 0, 0, 0, 0, 0, 0, 0]"
  by (simp_all add: lighting_initial_def)

lemma woken_flags:
  "leds_awake (anne_pro_lighting_on lighting_initial)"
  "\<not> backlight_active (anne_pro_lighting_on lighting_initial)"
  "\<not> capslock_active (anne_pro_lighting_on lighting_initial)"
  "calls (anne_pro_lighting_on lighting_initial) = [Call_writePinHigh, Call_chThdSleepMilliseconds 50]"
  by (simp_all add: flags_on calls_on initial_flags)

lemma lit_flags:
  "leds_awake lit_state" "backlight_active lit_state" "\<not> capslock_active lit_state"
  "keystate lit_state = [9, 10, 7, 0, 0, 0, 0, 0, 0, 0, 0, 0]"
  by (simp_all add: lit_state_def anne_pro_lighting_mode_def anne_pro_lighting_on_def
      call_defs lighting_initial_def)

lemma cut_flags:
  "\<not> leds_awake cut_state" "backlight_active cut_state" "\<not> capslock_active cut_state"
  by (simp_all add: cut_state_def anne_pro_lighting_off_def call_defs lit_flags)

lemma lit_calls:
  "calls lit_state = [Call_writePinHigh, Call_chThdSleepMilliseconds 50,
                      Call_ringbuf_write [9, 2, 1, 5], Call_ringbuf_start_transmission]"
  by (simp add: lit_state_def calls_mode woken_flags)

lemma cut_calls:
  "calls cut_state = [Call_writePinHigh, Call_chThdSleepMilliseconds 50,
                      Call_ringbuf_write [9, 2, 1, 5], Call_ringbuf_start_transmission,
                      Call_writePinLow]"
  by (simp add: cut_state_def calls_off lit_calls)

subsection \<open>Guards against writing to a sleeping controller\<close>





text \<open>
  \<^verbatim>\<open>led_set_kb\<close> with the caps lock bit off writes its command whatever the state
  of the controller.
\<close>

lemma led_set_kb_caps_off_unguarded:
  "\<not> IS_LED_ON P u (USB_LED_CAPS_LOCK P) \<Longrightarrow>
   emitted s (led_set_kb P u s) =
     [Call_ringbuf_write [9, 2, 12, 0], Call_ringbuf_start_transmission, Call_led_set_user u]"
  by (intro emitted_append) (simp add: calls_led_set_kb)

subsection \<open>Setting the mode\<close>

text \<open>
  Claim C3 (amended). Setting mode 0 while the controller is asleep enqueues no
  command, leaves the queue as it is and leaves \<open>backlight_active\<close> unchanged: it is
  false afterwards exactly when it was false before.
\<close>

theorem set_mode_asleep:
  assumes "\<not> leds_awake s"
  shows "emitted s (anne_pro_lighting_mode 0 s) = []
       \<and> led_uart_ringbuf (anne_pro_lighting_mode 0 s) = led_uart_ringbuf s
       \<and> backlight_active (anne_pro_lighting_mode 0 s) = backlight_active s"
  using assms by (simp add: anne_pro_lighting_mode_def)

theorem set_mode_asleep_witness:
  "\<not> leds_awake lighting_initial \<and>
   emitted lighting_initial (anne_pro_lighting_mode 0 lighting_initial) = [] \<and>
   \<not> backlight_active (anne_pro_lighting_mode 0 lighting_initial)"
  using set_mode_asleep [of lighting_initial]
  by (simp add: initial_flags)

text \<open>
  Claim C3 as stated fails: after a direct \<^verbatim>\<open>anne_pro_lighting_off\<close> the controller
  is asleep with the backlight still marked active, and setting mode 0 then changes
  nothing, so \<open>backlight_active\<close> is true afterwards.
\<close>

theorem set_mode_asleep_counterexample:
  "\<not> leds_awake cut_state \<and> backlight_active (anne_pro_lighting_mode 0 cut_state)"
  by (simp add: anne_pro_lighting_mode_def cut_flags)

text \<open>
  Claim C7. For every mode \<open>m\<close>, setting the mode while the controller is awake
  enqueues exactly the 4-byte command \<^verbatim>\<open>09 02 01 m\<close> and then requests
  transmission; the queue is the old one after that write and that kick; afterwards
  \<open>backlight_active\<close> equals \<open>m \<noteq> 0\<close> and the controller is still awake.
\<close>

theorem set_mode_awake:
  assumes "leds_awake s"
  shows "emitted s (anne_pro_lighting_mode m s) =
           [Call_ringbuf_write [9, 2, 1, m], Call_ringbuf_start_transmission]
       \<and> led_uart_ringbuf (anne_pro_lighting_mode m s) =
           uart_tx_ringbuf_start_transmission
             (uart_tx_ringbuf_write (led_uart_ringbuf s) [9, 2, 1, m])
       \<and> backlight_active (anne_pro_lighting_mode m s) = (m \<noteq> 0)
       \<and> leds_awake (anne_pro_lighting_mode m s)"
proof -
  have "emitted s (anne_pro_lighting_mode m s) =
          [Call_ringbuf_write [9, 2, 1, m], Call_ringbuf_start_transmission]"
    using assms by (intro emitted_append) (simp add: calls_mode)
  then show ?thesis
    using assms by (simp add: anne_pro_lighting_mode_def call_defs)
qed

text \<open>
  Mode 5 on the freshly woken controller: the queue receives \<^verbatim>\<open>[9, 2, 1, 5]\<close> and
  the backlight becomes active.
\<close>

theorem set_mode_awake_witness:
  "leds_awake (anne_pro_lighting_on lighting_initial) \<and>
   emitted (anne_pro_lighting_on lighting_initial)
     (anne_pro_lighting_mode 5 (anne_pro_lighting_on lighting_initial)) =
       [Call_ringbuf_write [9, 2, 1, 5], Call_ringbuf_start_transmission] \<and>
   backlight_active (anne_pro_lighting_mode 5 (anne_pro_lighting_on lighting_initial))"
  using set_mode_awake [of "anne_pro_lighting_on lighting_initial" 5]
  by (simp add: woken_flags)

subsection \<open>Enqueue and kick\<close>

text \<open>
  Claim C4 (amended). Every operation other than the rate, brightness and mode
  stepping and the setting of key colours requests transmission after each write
  into the queue, within the same call. Those four operations only enqueue and
  request no transmission; an update tick requests it whenever the queue is not
  empty.
\<close>

theorem kick_discipline:
  assumes "exec P op s = Some s'"
  shows "(\<not> deferred op \<longrightarrow> kicked (emitted s s'))
       \<and> (deferred op \<longrightarrow> Call_ringbuf_start_transmission \<notin> set (emitted s s'))
       \<and> (\<not> uart_tx_ringbuf_empty (led_uart_ringbuf s') \<longrightarrow>
            Call_ringbuf_start_transmission \<in> set (emitted s' (anne_pro_lighting_update s')))"
proof -
  note e = emitted_append [OF exec_calls [OF assms]]
  have a: "kicked (emitted s s')" if "\<not> deferred op"
    unfolding e using that by (cases op) auto
  have b: "Call_ringbuf_start_transmission \<notin> set (emitted s s')" if "deferred op"
    unfolding e using that by (cases op) auto
  have "emitted s' (anne_pro_lighting_update s') =
      (if uart_tx_ringbuf_empty (led_uart_ringbuf s') then []
       else [Call_ringbuf_start_transmission])
      @ (if leds_awake s' \<and> \<not> backlight_active s' \<and> \<not> capslock_active s'
         then [Call_writePinLow] else [])"
    by (intro emitted_append) (simp add: calls_update)
  then have c: "Call_ringbuf_start_transmission \<in> set (emitted s' (anne_pro_lighting_update s'))"
    if "\<not> uart_tx_ringbuf_empty (led_uart_ringbuf s')"
    using that by simp
  show ?thesis using a b c by blast
qed

theorem kick_discipline_witness:
  "exec example_platform (Op_mode 5) (anne_pro_lighting_on lighting_initial) = Some lit_state \<and>
   kicked (emitted (anne_pro_lighting_on lighting_initial) lit_state) \<and>
   exec example_platform Op_rate_next lit_state = Some (anne_pro_lighting_rate_next lit_state) \<and>
   Call_ringbuf_start_transmission \<notin> set (emitted lit_state (anne_pro_lighting_rate_next lit_state)) \<and>
   \<not> uart_tx_ringbuf_empty (led_uart_ringbuf (anne_pro_lighting_rate_next lit_state)) \<and>
   Call_ringbuf_start_transmission \<in> set (emitted (anne_pro_lighting_rate_next lit_state)
      (anne_pro_lighting_update (anne_pro_lighting_rate_next lit_state)))"
proof -
  have ne: "\<not> uart_tx_ringbuf_empty (led_uart_ringbuf (anne_pro_lighting_rate_next lit_state))"
    by (simp add: anne_pro_lighting_rate_next_def lit_flags)
       (simp add: lit_state_def anne_pro_lighting_mode_def anne_pro_lighting_on_def call_defs
          lighting_initial_def led_uart_ringbuf_initial_def uart_tx_ringbuf_write_def
          uart_tx_ringbuf_start_transmission_def uart_tx_ringbuf_empty_def)
  show ?thesis
    using ne
      kick_discipline [of example_platform "Op_mode 5" "anne_pro_lighting_on lighting_initial" lit_state]
      kick_discipline [of example_platform Op_rate_next lit_state
        "anne_pro_lighting_rate_next lit_state"]
    by (simp add: lit_state_def)
qed

text \<open>
  Claim C4 as stated fails: stepping the rate on a lit controller writes its 6 bytes
  and requests no transmission, and so does setting the colour of one key (two
  writes, no kick).
\<close>

theorem kick_discipline_counterexample:
  "backlight_active lit_state \<and>
   emitted lit_state (anne_pro_lighting_rate_next lit_state) =
     [Call_ringbuf_write [9, 4, 5, 0, 1, 0]] \<and>
   \<not> kicked (emitted lit_state (anne_pro_lighting_rate_next lit_state)) \<and>
   leds_awake lit_state \<and>
   map_option (emitted lit_state) (anne_pro_lighting_set_keys 1 [0, 255, 0, 0, 1] lit_state) =
     Some [Call_ringbuf_write [9, 8, 11, 202, 1], Call_ringbuf_write [0, 255, 0, 0, 1]]"
proof -
  have a: "emitted lit_state (anne_pro_lighting_rate_next lit_state) =
     [Call_ringbuf_write [9, 4, 5, 0, 1, 0]]"
    by (intro emitted_append) (simp add: calls_rate_next lit_flags)
  have b: "map_option (emitted lit_state) (anne_pro_lighting_set_keys 1 [0, 255, 0, 0, 1] lit_state) =
     Some [Call_ringbuf_write [9, 8, 11, 202, 1], Call_ringbuf_write [0, 255, 0, 0, 1]]"
    by (simp add: anne_pro_lighting_set_keys_def lit_flags emitted_def call_defs)
  show ?thesis using a b by (simp add: lit_flags)
qed

subsection \<open>Rate and brightness\<close>

text \<open>
  Claim C5 (amended). For every rate \<open>r\<close> and brightness \<open>b\<close>, setting rate and
  brightness while the backlight is active enqueues exactly the 6 bytes
  \<^verbatim>\<open>09 04 02 r min(b, 10) 00\<close> (the command of the wire format table followed by
  a zero byte) and then requests transmission; the brightness byte is \<open>b\<close> clamped
  to the range 0..10.
\<close>

theorem rate_brightness_active:
  assumes "backlight_active s"
  shows "emitted s (anne_pro_lighting_rate_brightness r b s) =
           [Call_ringbuf_write (rate_brightness_packet_spec r b @ [0]),
            Call_ringbuf_start_transmission]
       \<and> enqueued (emitted s (anne_pro_lighting_rate_brightness r b s)) =
           [9, 4, 2, r, min b 10, 0]
       \<and> unat (min b 10) = min (unat b) 10"
proof -
  have e: "emitted s (anne_pro_lighting_rate_brightness r b s) =
          [Call_ringbuf_write [9, 4, 2, r, min b 10, 0], Call_ringbuf_start_transmission]"
    using assms by (intro emitted_append) (simp add: calls_rate_brightness)
  have "unat (min b 10) = min (unat b) 10"
    by (simp add: min_def word_le_nat_alt)
  then show ?thesis
    using e by (simp add: rate_brightness_packet_spec_def)
qed

theorem rate_brightness_active_witness:
  "backlight_active lit_state \<and>
   enqueued (emitted lit_state (anne_pro_lighting_rate_brightness 3 200 lit_state)) =
     [9, 4, 2, 3, 10, 0]"
  using rate_brightness_active [of lit_state 3 200]
  by (simp add: lit_flags rate_brightness_packet_spec_def)

text \<open>
  Claim C5 as stated fails: the bytes enqueued are not the 5-byte command of the
  wire format table; a sixth byte, 0, follows the brightness.
\<close>

theorem rate_brightness_counterexample:
  "backlight_active lit_state \<and>
   emitted lit_state (anne_pro_lighting_rate_brightness 1 2 lit_state) \<noteq>
     [Call_ringbuf_write (rate_brightness_packet_spec 1 2), Call_ringbuf_start_transmission] \<and>
   enqueued (emitted lit_state (anne_pro_lighting_rate_brightness 1 2 lit_state)) =
     [9, 4, 2, 1, 2, 0]"
proof -
  have "emitted lit_state (anne_pro_lighting_rate_brightness 1 2 lit_state) =
          [Call_ringbuf_write [9, 4, 2, 1, min 2 10, 0], Call_ringbuf_start_transmission]"
    by (intro emitted_append) (simp add: calls_rate_brightness lit_flags)
  then show ?thesis
    by (simp add: lit_flags rate_brightness_packet_spec_def)
qed

subsection \<open>The keystate bitmap\<close>

lemma bit_set_u8:
  fixes x :: u8
  assumes "b < 8"
  shows "bit (x OR 2 ^ b) c \<longleftrightarrow> bit x c \<or> c = b"
  using assms by (auto simp: bit_simps)

lemma bit_clear_u8:
  fixes x :: u8
  assumes "b < 8"
  shows "bit (x AND NOT (2 ^ b)) c \<longleftrightarrow> bit x c \<and> c \<noteq> b"
  using assms by (auto simp: bit_simps dest: bit_imp_le_length)

lemma same_byte_other_bit:
  fixes p q :: nat
  assumes "q \<noteq> p" "q div 8 = p div 8"
  shows "q mod 8 \<noteq> p mod 8"
  using assms by (metis div_mult_mod_eq)

text \<open>
  No exposed operation changes the length of the keystate buffer or its header.
\<close>

lemma exec_keystate_header:
  assumes "exec P op s = Some s'" and "length (keystate s) = 12"
    and "take 3 (keystate s) = [9, 10, 7]"
  shows "length (keystate s') = 12 \<and> take 3 (keystate s') = [9, 10, 7]"
proof (cases op)
  case (Op_update_dynamic r)
  then show ?thesis
    using assms
    by (auto simp: anne_pro_lighting_update_dynamic_def call_defs Let_def take_update_cancel
        split: if_splits)
next
  case (Op_set_keys n payload)
  then show ?thesis
    using assms by (auto simp: anne_pro_lighting_set_keys_def call_defs split: if_splits)
qed (use assms in \<open>auto simp: anne_pro_lighting_init_def led_set_kb_def
      anne_pro_lighting_update_def anne_pro_lighting_toggle_def anne_pro_lighting_on_def
      anne_pro_lighting_off_def anne_pro_lighting_rate_next_def
      anne_pro_lighting_brightness_next_def anne_pro_lighting_mode_next_def
      anne_pro_lighting_mode_def anne_pro_lighting_mode_last_def
      anne_pro_lighting_rate_brightness_def call_defs Let_def\<close>)

text \<open>
  Claim C6 (amended). Take a key event that is not a no-event, at a position
  \<open>p = row * MATRIX_COLS + col\<close> below 72, while the backlight is active and the
  keystate buffer holds its 12 bytes with the header \<^verbatim>\<open>09 0a 07\<close>. Then the update
  returns, bit \<open>p\<close> of the 72-bit bitmap is set when the key is pressed and cleared
  when it is released, every other bit of the bitmap is unchanged, the header is
  unchanged, and the operation enqueues the 12-byte keystate buffer (the 3 header
  bytes \<^verbatim>\<open>09 0a 07\<close>, then the 9 bytes of the bitmap) followed by a request to
  transmit.
\<close>

theorem update_dynamic_active:
  assumes "\<not> IS_NOEVENT P (event r)" and "backlight_active s"
    and "length (keystate s) = 12" and "take 3 (keystate s) = [9, 10, 7]"
    and "p = unat (row (key (event r))) * MATRIX_COLS P + unat (col (key (event r)))"
    and "p < 72"
  shows "\<exists>s'. anne_pro_lighting_update_dynamic P r s = Some s'
       \<and> keystate_bit (keystate s') p = pressed (event r)
       \<and> (\<forall>q<72. q \<noteq> p \<longrightarrow> keystate_bit (keystate s') q = keystate_bit (keystate s) q)
       \<and> length (keystate s') = 12 \<and> take 3 (keystate s') = [9, 10, 7]
       \<and> emitted s s' = [Call_ringbuf_write (keystate s'), Call_ringbuf_start_transmission]"
proof -
  let ?i = "3 + p div 8"
  let ?old = "keystate s ! ?i"
  let ?new = "if pressed (event r) then ?old OR push_bit (p mod 8) 1
              else ?old AND NOT (push_bit (p mod 8) 1)"
  let ?ks = "(keystate s)[?i := ?new]"
  let ?s' = "ringbuf_start_transmission (ringbuf_write 12 ?ks (s\<lparr>keystate := ?ks\<rparr>))"
  have i: "?i < 12" using assms(6) by simp
  have run: "anne_pro_lighting_update_dynamic P r s = Some ?s'"
    using assms(1,2,3) i
    by (simp add: anne_pro_lighting_update_dynamic_def Let_def assms(5) [symmetric])
  have ks: "keystate ?s' = ?ks" by (simp add: call_defs)
  have len: "length ?ks = 12" using assms(3) by simp
  have hdr: "take 3 ?ks = [9, 10, 7]"
    using assms(4) by (simp add: take_update_cancel)
  have own: "keystate_bit ?ks p = pressed (event r)"
    using i assms(3) by (simp add: keystate_bit_def bit_set_u8 bit_clear_u8)
  have others: "keystate_bit ?ks q = keystate_bit (keystate s) q" if "q \<noteq> p" for q
  proof (cases "q div 8 = p div 8")
    case True
    then have "q mod 8 \<noteq> p mod 8" using that by (rule same_byte_other_bit [rotated])
    then show ?thesis
      using True i assms(3) by (simp add: keystate_bit_def bit_set_u8 bit_clear_u8)
  next
    case False
    then show ?thesis by (simp add: keystate_bit_def)
  qed
  have em: "emitted s ?s' = [Call_ringbuf_write ?ks, Call_ringbuf_start_transmission]"
    using len by (intro emitted_append) (simp add: call_defs)
  have "anne_pro_lighting_update_dynamic P r s = Some ?s'
       \<and> keystate_bit (keystate ?s') p = pressed (event r)
       \<and> (\<forall>q<72. q \<noteq> p \<longrightarrow> keystate_bit (keystate ?s') q = keystate_bit (keystate s) q)
       \<and> length (keystate ?s') = 12 \<and> take 3 (keystate ?s') = [9, 10, 7]
       \<and> emitted s ?s' = [Call_ringbuf_write (keystate ?s'), Call_ringbuf_start_transmission]"
    unfolding ks using run own others len hdr em by (intro conjI allI impI)
  then show ?thesis by (rule exI)
qed

theorem update_dynamic_active_witness:
  "\<not> IS_NOEVENT example_platform (event example_press) \<and> backlight_active lit_state \<and>
   length (keystate lit_state) = 12 \<and> take 3 (keystate lit_state) = [9, 10, 7] \<and>
   unat (row (key (event example_press))) * MATRIX_COLS example_platform
     + unat (col (key (event example_press))) = 17 \<and>
   (\<exists>s'. anne_pro_lighting_update_dynamic example_platform example_press lit_state = Some s'
      \<and> keystate_bit (keystate s') 17 \<and> length (keystate s') = 12
      \<and> emitted lit_state s' = [Call_ringbuf_write (keystate s'), Call_ringbuf_start_transmission])"
proof -
  have h1: "\<not> IS_NOEVENT example_platform (event example_press)"
    by (simp add: example_platform_def example_press_def)
  have h2: "17 = unat (row (key (event example_press))) * MATRIX_COLS example_platform
     + unat (col (key (event example_press)))"
    by (simp add: example_platform_def example_press_def)
  have h3: "pressed (event example_press)" by (simp add: example_press_def)
  show ?thesis
    using h1 h2 [symmetric] h3
      update_dynamic_active [of example_platform example_press lit_state 17, OF h1 _ _ _ h2]
    by (auto simp: lit_flags)
qed

text \<open>
  Claim C6 as stated fails: on the first press of the key at row 0, column 0 the
  packet enqueued is \<^verbatim>\<open>09 0a 07 01\<close> and eight zero bytes, 12 bytes in all; the
  format \<^verbatim>\<open>09 0a 07 00\<close> followed by the 9 bytes of the bitmap would be 13 bytes
  with a constant fourth byte.
\<close>

theorem update_dynamic_packet_counterexample:
  "\<not> IS_NOEVENT example_platform (event first_key_press) \<and> backlight_active lit_state \<and>
   map_option (emitted lit_state)
     (anne_pro_lighting_update_dynamic example_platform first_key_press lit_state) =
     Some [Call_ringbuf_write [9, 10, 7, 1, 0, 0, 0, 0, 0, 0, 0, 0],
           Call_ringbuf_start_transmission] \<and>
   map_option (\<lambda>s'. keystate_packet_spec (keystate s'))
     (anne_pro_lighting_update_dynamic example_platform first_key_press lit_state) =
     Some [9, 10, 7, 0, 1, 0, 0, 0, 0, 0, 0, 0, 0]"
  by (simp add: anne_pro_lighting_update_dynamic_def example_platform_def first_key_press_def
      Let_def lit_flags emitted_def call_defs keystate_packet_spec_def)

subsection \<open>The update tick\<close>

text \<open>
  Claim C8. An update tick on a controller that is awake with neither the backlight
  nor the caps lock indicator active puts it to sleep: the power pin is written low
  and \<open>leds_awake\<close> becomes false. When the controller is awake and one of the two
  is active, the tick leaves \<open>leds_awake\<close> true and the power pin untouched.
\<close>

theorem update_sleeps_unused_controller:
  "(leds_awake s \<and> \<not> backlight_active s \<and> \<not> capslock_active s \<longrightarrow>
      \<not> leds_awake (anne_pro_lighting_update s) \<and> \<not> pin_C15 (anne_pro_lighting_update s) \<and>
      Call_writePinLow \<in> set (emitted s (anne_pro_lighting_update s)))
   \<and> (leds_awake s \<and> (backlight_active s \<or> capslock_active s) \<longrightarrow>
      leds_awake (anne_pro_lighting_update s) \<and>
      pin_C15 (anne_pro_lighting_update s) = pin_C15 s \<and>
      Call_writePinLow \<notin> set (emitted s (anne_pro_lighting_update s)))"
proof -
  have e: "emitted s (anne_pro_lighting_update s) =
      (if uart_tx_ringbuf_empty (led_uart_ringbuf s) then []
       else [Call_ringbuf_start_transmission])
      @ (if leds_awake s \<and> \<not> backlight_active s \<and> \<not> capslock_active s
         then [Call_writePinLow] else [])"
    by (intro emitted_append) (simp add: calls_update)
  show ?thesis
    unfolding e
    by (simp add: anne_pro_lighting_update_def anne_pro_lighting_off_def call_defs Let_def)
qed

theorem update_sleeps_unused_controller_witness:
  "leds_awake (anne_pro_lighting_on lighting_initial) \<and>
   \<not> backlight_active (anne_pro_lighting_on lighting_initial) \<and>
   \<not> capslock_active (anne_pro_lighting_on lighting_initial) \<and>
   \<not> leds_awake (anne_pro_lighting_update (anne_pro_lighting_on lighting_initial)) \<and>
   \<not> pin_C15 (anne_pro_lighting_update (anne_pro_lighting_on lighting_initial)) \<and>
   leds_awake lit_state \<and> backlight_active lit_state \<and>
   leds_awake (anne_pro_lighting_update lit_state)"
  using update_sleeps_unused_controller [of "anne_pro_lighting_on lighting_initial"]
    update_sleeps_unused_controller [of lit_state]
  by (simp add: woken_flags lit_flags)

subsection \<open>Key colours\<close>

text \<open>
  Claim C9 (amended). For every key count \<open>N\<close> of at most 50 and payload of
  \<open>5 * N\<close> bytes, setting the key colours while the controller is awake returns
  and enqueues, in two writes, the header \<^verbatim>\<open>09 len 0b ca N\<close> and then the payload,
  where the length byte \<open>len\<close> equals \<open>3 + 5 * N\<close>. Afterwards the backlight is
  marked active. (Key counts above 50, for which \<open>3 + 5 * N\<close> does not fit the
  length byte, are left out.)
\<close>

theorem set_keys_awake:
  assumes "leds_awake s" and "length payload = 5 * unat n" and "unat n \<le> 50"
  shows "\<exists>s'. anne_pro_lighting_set_keys n payload s = Some s'
       \<and> emitted s s' = [Call_ringbuf_write [9, 3 + 5 * n, 11, 202, n], Call_ringbuf_write payload]
       \<and> enqueued (emitted s s') = [9, 3 + 5 * n, 11, 202, n] @ payload
       \<and> unat (3 + 5 * n) = 3 + 5 * unat n
       \<and> backlight_active s'"
proof -
  let ?s' = "(ringbuf_write (5 * unat n) payload
               (ringbuf_write 5 [9, 3 + 5 * n, 11, 202, n] s))\<lparr>backlight_active := True\<rparr>"
  have run: "anne_pro_lighting_set_keys n payload s = Some ?s'"
    using assms(1,2) by (simp add: anne_pro_lighting_set_keys_def)
  have em: "emitted s ?s' =
      [Call_ringbuf_write [9, 3 + 5 * n, 11, 202, n], Call_ringbuf_write payload]"
    using assms(2) by (intro emitted_append) (simp add: call_defs)
  have "unat (3 + 5 * n) = (3 + 5 * unat n) mod 256"
    by (simp add: unat_word_ariths mod_simps)
  then have len: "unat (3 + 5 * n) = 3 + 5 * unat n"
    using assms(3) by simp
  have "anne_pro_lighting_set_keys n payload s = Some ?s'
       \<and> emitted s ?s' = [Call_ringbuf_write [9, 3 + 5 * n, 11, 202, n], Call_ringbuf_write payload]
       \<and> enqueued (emitted s ?s') = [9, 3 + 5 * n, 11, 202, n] @ payload
       \<and> unat (3 + 5 * n) = 3 + 5 * unat n
       \<and> backlight_active ?s'"
    using run em len by (simp add: call_defs)
  then show ?thesis by (rule exI)
qed

theorem set_keys_awake_witness:
  "leds_awake (anne_pro_lighting_on lighting_initial) \<and>
   length [0, 255, 0, 0, 1, 1, 0, 255, 0, 1 :: u8] = 5 * unat (2 :: u8) \<and>
   unat (2 :: u8) \<le> 50 \<and>
   (\<exists>s'. anne_pro_lighting_set_keys 2 [0, 255, 0, 0, 1, 1, 0, 255, 0, 1]
            (anne_pro_lighting_on lighting_initial) = Some s'
      \<and> enqueued (emitted (anne_pro_lighting_on lighting_initial) s') =
          [9, 13, 11, 202, 2, 0, 255, 0, 0, 1, 1, 0, 255, 0, 1]
      \<and> backlight_active s')"
  using set_keys_awake [of "anne_pro_lighting_on lighting_initial"
      "[0, 255, 0, 0, 1, 1, 0, 255, 0, 1]" 2]
  by (auto simp: woken_flags)

text \<open>
  Claim C9 as stated fails for 51 keys: the length byte is 2, not \<open>3 + 5 * 51 = 258\<close>,
  which no byte can hold.
\<close>

theorem set_keys_length_counterexample:
  "leds_awake (anne_pro_lighting_on lighting_initial) \<and>
   length (replicate 255 (0 :: u8)) = 5 * unat (51 :: u8) \<and>
   map_option (\<lambda>s'. unat (enqueued (emitted (anne_pro_lighting_on lighting_initial) s') ! 1))
     (anne_pro_lighting_set_keys 51 (replicate 255 0) (anne_pro_lighting_on lighting_initial)) =
     Some 2 \<and>
   3 + 5 * unat (51 :: u8) = 258"
  by (simp add: anne_pro_lighting_set_keys_def woken_flags emitted_def call_defs)

subsection \<open>Turning the lighting on\<close>

text \<open>
  Claim C10. Turning the lighting on is idempotent: when \<open>leds_awake\<close> is already
  true the call returns the state it was given (no write of the power pin, no
  sleep, no change of any variable); in every state a second call changes nothing
  after the first, and the controller is awake afterwards.
\<close>

theorem lighting_on_idempotent:
  "(leds_awake s \<longrightarrow> anne_pro_lighting_on s = s)
   \<and> anne_pro_lighting_on (anne_pro_lighting_on s) = anne_pro_lighting_on s
   \<and> leds_awake (anne_pro_lighting_on s)"
  by (simp add: anne_pro_lighting_on_def)

theorem lighting_on_idempotent_witness:
  "leds_awake lit_state \<and> anne_pro_lighting_on lit_state = lit_state \<and>
   calls (anne_pro_lighting_on lit_state) = calls lit_state \<and>
   pin_C15 (anne_pro_lighting_on lit_state) = pin_C15 lit_state"
  using lighting_on_idempotent [of lit_state]
  by (simp add: lit_flags)

end
